theory Spec2Isabelle
  imports Main "HOL-Library.Sublist" "HOL-Library.Multiset"
begin

section \<open>Strings as the route handler uses them\<close>

text \<open>
  A string is a list of code units; the units modelled are those below 256, the Latin-1
  range of a JavaScript string. In that range \<^verbatim>\<open>String.prototype.trim\<close> strips TAB, LF,
  VT, FF, CR, SPACE and NBSP from both ends.
\<close>

definition is_ws :: "char \<Rightarrow> bool" where
  "is_ws c = (c \<in> set [CHR 0x09, CHR 0x0A, CHR 0x0B, CHR 0x0C, CHR 0x0D, CHR 0x20, CHR 0xA0])"

definition trim :: "string \<Rightarrow> string" where
  "trim s = rev (dropWhile is_ws (rev (dropWhile is_ws s)))"

text \<open>
  \<^verbatim>\<open>s.split(",")\<close>: the segments between separators, in order. The empty string
  has the one segment \<^verbatim>\<open>""\<close>; a leading, trailing or doubled separator gives an empty
  segment.
\<close>

fun split_str :: "char \<Rightarrow> string \<Rightarrow> string list" where
  "split_str c [] = [[]]"
| "split_str c (x # xs) =
     (if x = c then [] # split_str c xs
      else (x # hd (split_str c xs)) # tl (split_str c xs))"

text \<open>\<^verbatim>\<open>Boolean(s)\<close> for a string: every string but the empty one is truthy.\<close>

definition truthy :: "string \<Rightarrow> bool" where
  "truthy s = (s \<noteq> [])"

text \<open>
  \<^verbatim>\<open>searchParams.get(name)?.split(",").filter(Boolean) || []\<close>: an absent parameter
  (\<^verbatim>\<open>null\<close>) short-circuits to \<^verbatim>\<open>[]\<close>; an array, empty or not, is truthy and is kept.
\<close>

definition list_param :: "string option \<Rightarrow> string list" where
  "list_param p = (case p of None \<Rightarrow> [] | Some s \<Rightarrow> filter truthy (split_str CHR '','' s))"

text \<open>\<^verbatim>\<open>searchParams.get("searchTerm") || ""\<close>.\<close>

definition text_param :: "string option \<Rightarrow> string" where
  "text_param p = (case p of None \<Rightarrow> [] | Some s \<Rightarrow> if truthy s then s else [])"

section \<open>The query sent to the ORM\<close>

datatype query_mode = default_mode | insensitive

datatype string_filter =
    contains string query_mode
  | in_list "string list"

text \<open>
  One element of the \<^verbatim>\<open>AND\<close> array. \<open>vst_type_is f\<close> is the relation filter
  \<^verbatim>\<open>{ vst: { type: f } }\<close>; \<open>contains t insensitive\<close> is
  \<^verbatim>\<open>{ contains: t, mode: "insensitive" }\<close> and \<open>in_list xs\<close> is \<^verbatim>\<open>{ in: xs }\<close>.
\<close>

datatype where_input =
    OR_of "where_input list"
  | title_is string_filter
  | description_is string_filter
  | genreId_is string_filter
  | vst_type_is string_filter
  | presetType_is string_filter

text \<open>
  \<^verbatim>\<open>whereClause\<close>: an object whose only property is \<^verbatim>\<open>AND\<close>; \<open>None\<close> is the object
  after \<^verbatim>\<open>delete whereClause.AND\<close>, that is \<^verbatim>\<open>{}\<close>.
\<close>

record where_clause =
  AND_of :: "where_input list option"

datatype include_spec = include_all | select_fields "string list"

datatype sort_order = asc | desc

record findMany_args =
  fm_where :: where_clause
  fm_include :: "(string \<times> include_spec) list"
  fm_orderBy :: "string \<times> sort_order"

text \<open>The lines 15 to 51 of the handler: the clause list is built by four guarded pushes.\<close>

definition buildWhere :: "(string \<rightharpoonup> string) \<Rightarrow> where_clause" where
  "buildWhere searchParams =
    (let searchTerm = text_param (searchParams ''searchTerm'');
         genres = list_param (searchParams ''genres'');
         vstTypes = list_param (searchParams ''vstTypes'');
         presetTypes = list_param (searchParams ''presetTypes'');
         a0 = [];
         a1 = (if truthy (trim searchTerm)
               then a0 @ [OR_of [title_is (contains (trim searchTerm) insensitive),
                                 description_is (contains (trim searchTerm) insensitive)]]
               else a0);
         a2 = (if length genres > 0 then a1 @ [genreId_is (in_list genres)] else a1);
         a3 = (if length vstTypes > 0 then a2 @ [vst_type_is (in_list vstTypes)] else a2);
         a4 = (if length presetTypes > 0 then a3 @ [presetType_is (in_list presetTypes)] else a3)
     in if length a4 = 0 then \<lparr>AND_of = None\<rparr> else \<lparr>AND_of = Some a4\<rparr>)"

definition findArgs :: "(string \<rightharpoonup> string) \<Rightarrow> findMany_args" where
  "findArgs searchParams =
     \<lparr>fm_where = buildWhere searchParams,
      fm_include = [(''soundDesigner'', select_fields [''username'', ''profileImage'']),
                    (''genre'', include_all), (''vst'', include_all)],
      fm_orderBy = (''createdAt'', desc)\<rparr>"

section \<open>The response of the route handler\<close>

datatype 'row response_body = json_rows "'row list" | json_error string

record 'row response =
  status :: nat
  body :: "'row response_body"

text \<open>
  \<^verbatim>\<open>GET\<close>: \<open>findMany\<close> is the ORM call, which either raises (\<open>Inl\<close>) or returns rows.
  The second component is what was written with \<^verbatim>\<open>console.error\<close>.
\<close>

definition GET ::
  "(findMany_args \<Rightarrow> 'e + 'row list) \<Rightarrow> (string \<rightharpoonup> string) \<Rightarrow> 'row response \<times> (string \<times> 'e) list" where
  "GET findMany searchParams =
     (case findMany (findArgs searchParams) of
        Inr presets \<Rightarrow> (\<lparr>status = 200, body = json_rows presets\<rparr>, [])
      | Inl error \<Rightarrow>
          (\<lparr>status = 500, body = json_error ''Failed to fetch presets''\<rparr>,
           [(''Error fetching marketplace presets:'', error)]))"

section \<open>The catalog behind the ORM\<close>

text \<open>
  Modelled from the spec: the ORM and the table it reads are not part of the sources. A
  row carries the columns the filters read; a missing description, genre, VST relation or
  preset type is \<open>None\<close>. The lookup keeps the rows that satisfy every clause (a text
  clause is a case-insensitive substring match, a list clause is membership in the list,
  and a missing column satisfies neither) and orders them by creation time, newest first.
\<close>

record preset_row =
  row_id :: string
  row_title :: string
  row_description :: "string option"
  row_genreId :: "string option"
  row_vst_type :: "string option"
  row_presetType :: "string option"
  row_createdAt :: int

definition to_lower :: "char \<Rightarrow> char" where
  "to_lower c =
     (case map_of (zip ''ABCDEFGHIJKLMNOPQRSTUVWXYZ'' ''abcdefghijklmnopqrstuvwxyz'') c of
        Some l \<Rightarrow> l
      | None \<Rightarrow> c)"

fun filter_matches :: "string_filter \<Rightarrow> string option \<Rightarrow> bool" where
  "filter_matches f None = False"
| "filter_matches (contains t insensitive) (Some v) = sublist (map to_lower t) (map to_lower v)"
| "filter_matches (contains t default_mode) (Some v) = sublist t v"
| "filter_matches (in_list xs) (Some v) = (v \<in> set xs)"

fun input_matches :: "where_input \<Rightarrow> preset_row \<Rightarrow> bool" where
  "input_matches (OR_of ws) r = list_ex (\<lambda>w. input_matches w r) ws"
| "input_matches (title_is f) r = filter_matches f (Some (row_title r))"
| "input_matches (description_is f) r = filter_matches f (row_description r)"
| "input_matches (genreId_is f) r = filter_matches f (row_genreId r)"
| "input_matches (vst_type_is f) r = filter_matches f (row_vst_type r)"
| "input_matches (presetType_is f) r = filter_matches f (row_presetType r)"

definition where_matches :: "where_clause \<Rightarrow> preset_row \<Rightarrow> bool" where
  "where_matches w r =
     (case AND_of w of None \<Rightarrow> True | Some ws \<Rightarrow> list_all (\<lambda>i. input_matches i r) ws)"

definition newest_first :: "preset_row list \<Rightarrow> preset_row list" where
  "newest_first rows = sort_key (\<lambda>r. - row_createdAt r) rows"

definition order_rows :: "string \<times> sort_order \<Rightarrow> preset_row list \<Rightarrow> preset_row list" where
  "order_rows ob rows =
     (if fst ob = ''createdAt''
      then (case snd ob of desc \<Rightarrow> newest_first rows | asc \<Rightarrow> sort_key row_createdAt rows)
      else rows)"

definition db_findMany :: "preset_row list \<Rightarrow> findMany_args \<Rightarrow> 'e + preset_row list" where
  "db_findMany table args =
     Inr (order_rows (fm_orderBy args) (filter (where_matches (fm_where args)) table))"

text \<open>The rows a response carries: none when it is an error object.\<close>

definition returned :: "'row response \<times> (string \<times> 'e) list \<Rightarrow> 'row list" where
  "returned out = (case body (fst out) of json_rows rows \<Rightarrow> rows | json_error m \<Rightarrow> [])"

text \<open>A text match as the claims word it: the term occurs in the title or the description,
  letter case ignored.\<close>

definition mentions :: "string \<Rightarrow> preset_row \<Rightarrow> bool" where
  "mentions t r =
     (sublist (map to_lower t) (map to_lower (row_title r)) \<or>
      (case row_description r of None \<Rightarrow> False
       | Some d \<Rightarrow> sublist (map to_lower t) (map to_lower d)))"

text \<open>Which filter dimension a clause of the conjunction belongs to.\<close>

datatype dimension = text_dim | genre_dim | vst_dim | preset_dim

fun dimension_of :: "where_input \<Rightarrow> dimension" where
  "dimension_of (OR_of ws) = text_dim"
| "dimension_of (title_is f) = text_dim"
| "dimension_of (description_is f) = text_dim"
| "dimension_of (genreId_is f) = genre_dim"
| "dimension_of (vst_type_is f) = vst_dim"
| "dimension_of (presetType_is f) = preset_dim"

definition clauses :: "where_clause \<Rightarrow> where_input list" where
  "clauses w = (case AND_of w of None \<Rightarrow> [] | Some cs \<Rightarrow> cs)"

definition absent_or_empty :: "string option \<Rightarrow> bool" where
  "absent_or_empty p = (p = None \<or> p = Some [])"

section \<open>The audio preview of a pack card\<close>

datatype toast = toast_info string | toast_error string | toast_success string

text \<open>
  The component state of \<^verbatim>\<open>PresetPackCard\<close>: three \<^verbatim>\<open>useState\<close> cells. An audio element
  is named by its handle, its position among the elements created so far.
\<close>

type_synonym handle = nat

record card_state =
  activePreset :: "string option"
  audio :: "handle option"
  isPlaying :: bool

datatype event_type = ended_ev | error_ev

text \<open>
  The four arrow functions of the component. Two of them call \<^verbatim>\<open>cleanupAudio\<close>, which
  reads the \<^verbatim>\<open>audio\<close> of the render that created it: that value is the argument.
  \<^item> \<open>on_ended_reset\<close>: \<^verbatim>\<open>() => { setIsPlaying(false); setActivePreset(null); }\<close>
  \<^item> \<open>on_error_cleanup a\<close>: \<^verbatim>\<open>() => { toast.error("Failed to load audio"); cleanupAudio(); }\<close>
  \<^item> \<open>on_play_rejected a\<close>: \<^verbatim>\<open>() => { toast.error("Failed to play audio"); cleanupAudio(); }\<close>
  \<^item> \<open>set_not_playing\<close>: \<^verbatim>\<open>() => setIsPlaying(false)\<close>, the argument of
    \<^verbatim>\<open>removeEventListener\<close>
\<close>

datatype callback =
    on_ended_reset
  | on_error_cleanup "handle option"
  | on_play_rejected "handle option"
  | set_not_playing

text \<open>
  A registered listener is an event type and a function object. Every evaluation of an
  arrow function makes a new object; the number is the object's identity, and
  \<^verbatim>\<open>removeEventListener\<close> removes the listener of that type with that identity.
\<close>

record audio_elem =
  src :: string
  paused :: bool
  listeners :: "(event_type \<times> nat \<times> callback) list"

record dom =
  elems :: "audio_elem list"
  next_fn :: nat
  catches :: "(handle \<times> nat \<times> callback) list"
  toasts :: "toast list"

definition map_elem :: "handle \<Rightarrow> (audio_elem \<Rightarrow> audio_elem) \<Rightarrow> dom \<Rightarrow> dom" where
  "map_elem h f w = (if h < length (elems w) then w\<lparr>elems := (elems w)[h := f (elems w ! h)]\<rparr> else w)"

definition audio_pause :: "handle \<Rightarrow> dom \<Rightarrow> dom" where
  "audio_pause h w = map_elem h (\<lambda>e. e\<lparr>paused := True\<rparr>) w"

definition audio_play :: "handle \<Rightarrow> dom \<Rightarrow> dom" where
  "audio_play h w = map_elem h (\<lambda>e. e\<lparr>paused := False\<rparr>) w"

definition addEventListener :: "handle \<Rightarrow> event_type \<Rightarrow> nat \<Rightarrow> callback \<Rightarrow> dom \<Rightarrow> dom" where
  "addEventListener h ty fid cb w = map_elem h (\<lambda>e. e\<lparr>listeners := listeners e @ [(ty, fid, cb)]\<rparr>) w"

definition removeEventListener :: "handle \<Rightarrow> event_type \<Rightarrow> nat \<Rightarrow> dom \<Rightarrow> dom" where
  "removeEventListener h ty fid w =
     map_elem h (\<lambda>e. e\<lparr>listeners := filter (\<lambda>l. \<not> (fst l = ty \<and> fst (snd l) = fid)) (listeners e)\<rparr>) w"

definition add_toast :: "toast \<Rightarrow> dom \<Rightarrow> dom" where
  "add_toast t w = w\<lparr>toasts := toasts w @ [t]\<rparr>"

text \<open>
  \<^verbatim>\<open>cleanupAudio\<close> (lines 52 to 60). The first argument is the \<^verbatim>\<open>audio\<close> the callback
  closed over; the state is the one its three setters are applied to.
\<close>

definition cleanupAudio :: "handle option \<Rightarrow> card_state \<times> dom \<Rightarrow> card_state \<times> dom" where
  "cleanupAudio captured sw =
     (case captured of
        None \<Rightarrow> sw
      | Some h \<Rightarrow>
          (let w1 = audio_pause h (snd sw);
               fresh = next_fn w1;
               w2 = removeEventListener h ended_ev fresh (w1\<lparr>next_fn := fresh + 1\<rparr>)
           in ((fst sw)\<lparr>audio := None, isPlaying := False, activePreset := None\<rparr>, w2)))"

text \<open>
  \<^verbatim>\<open>togglePlay\<close> (lines 66 to 108). The tests read the state of the render that created
  the callback, \<open>fst sw\<close>; the setters write the state the next render sees, so a later
  write wins over the writes \<^verbatim>\<open>cleanupAudio\<close> made before it.
\<close>

definition togglePlay :: "string \<Rightarrow> string option \<Rightarrow> card_state \<times> dom \<Rightarrow> card_state \<times> dom" where
  "togglePlay presetId soundPreviewUrl sw =
     (let st = fst sw in
      if \<not> (case soundPreviewUrl of None \<Rightarrow> False | Some u \<Rightarrow> truthy u)
      then (st, add_toast (toast_info ''No preview available for this preset'') (snd sw))
      else
        let url = the soundPreviewUrl;
            sw1 = (if (case activePreset st of None \<Rightarrow> False | Some a \<Rightarrow> truthy a)
                      \<and> activePreset st \<noteq> Some presetId
                   then cleanupAudio (audio st) sw else sw);
            st1 = fst sw1;
            w1 = snd sw1
        in if audio st = None \<or> activePreset st \<noteq> Some presetId
           then
             (let newAudio = length (elems w1);
                  f = next_fn w1;
                  w2 = w1\<lparr>elems := elems w1 @ [\<lparr>src = url, paused = True, listeners = []\<rparr>]\<rparr>;
                  w3 = addEventListener newAudio ended_ev f on_ended_reset w2;
                  w4 = addEventListener newAudio error_ev (f + 1) (on_error_cleanup (audio st)) w3;
                  w5 = audio_play newAudio w4;
                  w6 = w5\<lparr>catches := catches w5 @ [(newAudio, f + 2, on_play_rejected (audio st))],
                          next_fn := f + 3\<rparr>
              in (st1\<lparr>audio := Some newAudio, activePreset := Some presetId, isPlaying := True\<rparr>, w6))
           else if isPlaying st
           then (st1\<lparr>isPlaying := False\<rparr>, audio_pause (the (audio st)) w1)
           else
             (let h = the (audio st);
                  f = next_fn w1;
                  w2 = audio_play h w1;
                  w3 = w2\<lparr>catches := catches w2 @ [(h, f, on_play_rejected (audio st))],
                          next_fn := f + 1\<rparr>
              in (st1\<lparr>isPlaying := True\<rparr>, w3)))"

text \<open>What a callback does when the element or the promise calls it.\<close>

fun run_callback :: "callback \<Rightarrow> card_state \<times> dom \<Rightarrow> card_state \<times> dom" where
  "run_callback on_ended_reset sw = ((fst sw)\<lparr>isPlaying := False, activePreset := None\<rparr>, snd sw)"
| "run_callback (on_error_cleanup a) sw =
     cleanupAudio a (fst sw, add_toast (toast_error ''Failed to load audio'') (snd sw))"
| "run_callback (on_play_rejected a) sw =
     cleanupAudio a (fst sw, add_toast (toast_error ''Failed to play audio'') (snd sw))"
| "run_callback set_not_playing sw = ((fst sw)\<lparr>isPlaying := False\<rparr>, snd sw)"

text \<open>The element \<open>h\<close> dispatches an event: its listeners of that type run in the order
  they were added. What the element does to itself at the end of playback or on an error
  is not part of the component and is left out.\<close>

definition fire_event :: "handle \<Rightarrow> event_type \<Rightarrow> card_state \<times> dom \<Rightarrow> card_state \<times> dom" where
  "fire_event h ty sw =
     (if h < length (elems (snd sw))
      then fold run_callback
             (map (\<lambda>l. snd (snd l)) (filter (\<lambda>l. fst l = ty) (listeners (elems (snd sw) ! h)))) sw
      else sw)"

text \<open>
  The effect of lines 62 to 64, \<^verbatim>\<open>useEffect(() => cleanupAudio, [cleanupAudio])\<close>.
  \<^verbatim>\<open>cleanupAudio\<close> is a new function exactly when \<^verbatim>\<open>audio\<close> changed, so after a render
  whose \<^verbatim>\<open>audio\<close> differs from the one the registered cleanup closed over, that cleanup
  runs (with the old \<^verbatim>\<open>audio\<close>) and the cleanup of the new render is registered; its
  setters cause another render. \<open>registered\<close> is the \<^verbatim>\<open>audio\<close> of the registered cleanup.
\<close>

function commit :: "handle option \<Rightarrow> card_state \<times> dom \<Rightarrow> card_state \<times> dom" where
  "commit registered sw =
     (if audio (fst sw) = registered then sw
      else commit (audio (fst sw)) (cleanupAudio registered sw))"
  by pat_completeness auto
termination
proof (relation "measure (\<lambda>(r, sw).
          if audio (fst sw) = r then 0
          else if r = None \<or> audio (fst sw) = None then 1 else 2)")
  show "wf (measure (\<lambda>(r, sw). if audio (fst sw) = r then 0
          else if r = None \<or> audio (fst sw) = None then (1::nat) else 2))"
    by simp
next
  fix registered :: "handle option" and sw :: "card_state \<times> dom"
  assume "audio (fst sw) \<noteq> registered"
  then show "((audio (fst sw), cleanupAudio registered sw), (registered, sw))
      \<in> measure (\<lambda>(r, sw). if audio (fst sw) = r then 0
          else if r = None \<or> audio (fst sw) = None then (1::nat) else 2)"
    by (cases registered) (auto simp: cleanupAudio_def Let_def)
qed

text \<open>Unmounting the card runs the registered cleanup.\<close>

definition unmount :: "handle option \<Rightarrow> card_state \<times> dom \<Rightarrow> card_state \<times> dom" where
  "unmount registered sw = cleanupAudio registered sw"

definition idle :: card_state where
  "idle = \<lparr>activePreset = None, audio = None, isPlaying = False\<rparr>"

definition no_dom :: dom where
  "no_dom = \<lparr>elems = [], next_fn = 0, catches = [], toasts = []\<rparr>"

section \<open>The item actions of the hook\<close>

datatype ItemType = PRESET | PACK | REQUEST

fun itemType_str :: "ItemType \<Rightarrow> string" where
  "itemType_str PRESET = ''PRESET''"
| "itemType_str PACK = ''PACK''"
| "itemType_str REQUEST = ''REQUEST''"

datatype CartType = CART | WISHLIST

text \<open>
  Modelled from the spec: the enumeration \<^verbatim>\<open>ContentViewMode\<close> of \<^verbatim>\<open>@/types/enums\<close> is not
  part of the sources. The hook names its member \<^verbatim>\<open>UPLOADED\<close>, the spec's "uploaded" view;
  every other member is an \<open>other_view\<close>. A member is a non-empty string, so a view mode
  that is present is truthy.
\<close>

datatype ContentViewMode = UPLOADED | other_view string

record UseItemActionsProps =
  itemId :: string
  itemType :: ItemType
  contentViewMode :: "ContentViewMode option"
  requestViewMode :: "string option"

definition to_upper :: "char \<Rightarrow> char" where
  "to_upper c =
     (case map_of (zip ''abcdefghijklmnopqrstuvwxyz'' ''ABCDEFGHIJKLMNOPQRSTUVWXYZ'') c of
        Some u \<Rightarrow> u
      | None \<Rightarrow> c)"

text \<open>\<^verbatim>\<open>s.charAt(0).toUpperCase() + s.slice(1)\<close>.\<close>

definition capitalize :: "string \<Rightarrow> string" where
  "capitalize s = (case s of [] \<Rightarrow> [] | c # cs \<Rightarrow> to_upper c # cs)"

text \<open>\<^verbatim>\<open>e || d\<close> for an optional string \<open>e\<close>.\<close>

definition or_else :: "string option \<Rightarrow> string \<Rightarrow> string" where
  "or_else e d = (case e of None \<Rightarrow> d | Some m \<Rightarrow> if truthy m then m else d)"

datatype http_method = POST | PUT | DELETE

text \<open>
  What the network gives back to one \<^verbatim>\<open>fetch\<close>: the call rejects with a message, or a
  response arrives with its \<^verbatim>\<open>ok\<close> flag and a body; reading the body as JSON rejects with
  a message (\<open>Inl\<close>) or gives an object whose \<^verbatim>\<open>error\<close> property is the option (\<open>Inr\<close>).
\<close>

datatype fetch_result =
    fetch_rejected string
  | fetch_replied bool "string + string option"

text \<open>What a \<^verbatim>\<open>catch\<close> block receives: an \<^verbatim>\<open>Error\<close> with its message, or any other value.\<close>

datatype thrown = thrown_Error string | thrown_other

record cart_item =
  ci_id :: string
  ci_itemType :: ItemType
  ci_quantity :: nat
  ci_createdAt :: nat
  ci_updatedAt :: nat
  ci_cartId :: string
  ci_presetId :: "string option"
  ci_packId :: "string option"

datatype store_action =
    optimisticAddToCart string CartType cart_item
  | addToCart string CartType ItemType
  | fetchCartItems CartType
  | moveItem string CartType CartType

text \<open>What a handler does to the world outside the component, in the order it does it.\<close>

datatype effect =
    fetch_call http_method string "(string \<times> string) list"
  | invalidateQueries "string list"
  | toast_shown toast
  | router_push string
  | dispatched store_action

text \<open>The \<^verbatim>\<open>mutationFn\<close> of a mutation: \<open>Inl\<close> is the message of the error it throws.\<close>

definition mutationFn_result :: "string \<Rightarrow> fetch_result \<Rightarrow> string + unit" where
  "mutationFn_result fallback r =
     (case r of
        fetch_rejected m \<Rightarrow> Inl m
      | fetch_replied ok b \<Rightarrow>
          (case b of
             Inl m \<Rightarrow> Inl m
           | Inr e \<Rightarrow> if \<not> ok then Inl (or_else e fallback) else Inr ()))"

text \<open>\<^verbatim>\<open>deleteItemMutation\<close> (lines 89 to 115): the request, and what runs once it settled.\<close>

definition delete_request :: "UseItemActionsProps \<Rightarrow> effect" where
  "delete_request p =
     fetch_call DELETE (''/api/'' @ itemType_str (itemType p) @ ''s/'' @ itemId p) []"

definition delete_settled :: "UseItemActionsProps \<Rightarrow> fetch_result \<Rightarrow> effect list" where
  "delete_settled p r =
     (case mutationFn_result (''Failed to delete '' @ itemType_str (itemType p)) r of
        Inr u \<Rightarrow>
          [invalidateQueries [itemType_str (itemType p) @ ''s''],
           toast_shown (toast_success (capitalize (itemType_str (itemType p)) @ '' deleted successfully''))]
          @ (if contentViewMode p = Some UPLOADED
             then [router_push (''/dashboard/'' @ itemType_str (itemType p) @ ''s'')] else [])
      | Inl m \<Rightarrow> [toast_shown (toast_error m)])"

definition deleteItemMutation :: "UseItemActionsProps \<Rightarrow> fetch_result \<Rightarrow> effect list" where
  "deleteItemMutation p r = delete_request p # delete_settled p r"

text \<open>
  \<^verbatim>\<open>handleDelete\<close> (lines 277 to 285). \<^verbatim>\<open>mutate()\<close> returns \<^verbatim>\<open>undefined\<close> at once, so the
  \<^verbatim>\<open>await\<close> ends before the response exists: the redirect of lines 280 to 284 runs first
  and does not depend on the result; the callbacks of the mutation run when it settles.
\<close>

definition handle_redirect :: "UseItemActionsProps \<Rightarrow> effect list" where
  "handle_redirect p =
     (if itemType p = REQUEST \<and> (case requestViewMode p of None \<Rightarrow> False | Some v \<Rightarrow> truthy v)
      then [router_push (''/requests?view='' @ the (requestViewMode p))]
      else if contentViewMode p \<noteq> None
      then [router_push (''/dashboard/'' @ itemType_str (itemType p) @ ''s'')]
      else [])"

definition handleDelete :: "UseItemActionsProps \<Rightarrow> fetch_result \<Rightarrow> effect list" where
  "handleDelete p r = delete_request p # handle_redirect p @ delete_settled p r"

text \<open>\<^verbatim>\<open>moveItemMutation\<close> (lines 125 to 153), called with \<open>from\<close>.\<close>

definition moveItemMutation :: "UseItemActionsProps \<Rightarrow> string \<Rightarrow> fetch_result \<Rightarrow> effect list" where
  "moveItemMutation p from r =
     fetch_call PUT (''/api/cart/'' @ from) [(''itemId'', itemId p), (''from'', from), (''to'', ''cart'')]
     # (case mutationFn_result ''Failed to move item'' r of
          Inr u \<Rightarrow>
            [invalidateQueries [''cart''], invalidateQueries [''wishlist''],
             toast_shown (toast_success (capitalize (itemType_str (itemType p)) @ '' moved to cart''))]
        | Inl m \<Rightarrow> [toast_shown (toast_error m)])"

text \<open>
  \<^verbatim>\<open>handleMoveToCart\<close> (lines 230 to 254). \<open>outcome\<close> is what \<^verbatim>\<open>unwrap()\<close> of the dispatched
  \<^verbatim>\<open>moveItem\<close> gives: it returns (\<open>Inr\<close>) or throws (\<open>Inl\<close>).
\<close>

definition catch_message :: "thrown \<Rightarrow> string \<Rightarrow> string" where
  "catch_message e fallback = (case e of thrown_Error m \<Rightarrow> m | thrown_other \<Rightarrow> fallback)"

definition handleMoveToCart :: "UseItemActionsProps \<Rightarrow> CartType \<Rightarrow> thrown + unit \<Rightarrow> effect list" where
  "handleMoveToCart p from outcome =
     dispatched (moveItem (itemId p) from CART)
     # (case outcome of
          Inr u \<Rightarrow>
            [dispatched (fetchCartItems CART), dispatched (fetchCartItems WISHLIST),
             toast_shown (toast_success (itemType_str (itemType p) @ '' moved to cart''))]
        | Inl e \<Rightarrow> [toast_shown (toast_error (catch_message e ''Failed to move item''))])"

text \<open>
  Modelled from the spec: the thunks of \<^verbatim>\<open>cartSlice\<close> are not part of the sources. The spec
  has a move be a single server call that names the item, its source and its target, not
  an add and a delete; an add is one call; re-fetching only reads, and the optimistic
  insert is local. The requests are those the mutations of the hook send for the same
  operations (lines 31 to 38 and 127 to 135).
\<close>

fun collection_name :: "CartType \<Rightarrow> string" where
  "collection_name CART = ''cart''"
| "collection_name WISHLIST = ''wishlist''"

fun thunk_requests :: "store_action \<Rightarrow> effect list" where
  "thunk_requests (moveItem x f t) =
     [fetch_call PUT (''/api/cart/'' @ collection_name f)
        [(''itemId'', x), (''from'', collection_name f), (''to'', collection_name t)]]"
| "thunk_requests (addToCart x t ty) =
     [fetch_call POST (''/api/cart/'' @ collection_name t)
        (if ty = PRESET then [(''presetId'', x)] else if ty = PACK then [(''packId'', x)] else [])]"
| "thunk_requests (fetchCartItems t) = []"
| "thunk_requests (optimisticAddToCart x t i) = []"

text \<open>The writing requests a list of effects sends to the server, in order.\<close>

fun requests_of :: "effect \<Rightarrow> effect list" where
  "requests_of (fetch_call m url b) = [fetch_call m url b]"
| "requests_of (dispatched a) = thunk_requests a"
| "requests_of e = []"

definition server_requests :: "effect list \<Rightarrow> effect list" where
  "server_requests es = concat (map requests_of es)"

text \<open>
  Modelled from the spec: the server's cart routes are not part of the sources. The spec
  has \<^verbatim>\<open>POST\<close>, \<^verbatim>\<open>PUT\<close> and \<^verbatim>\<open>DELETE\<close> endpoints under the cart and wishlist routes: an add
  puts the item of the body into the collection of the route, a remove takes it out of the
  collection of the route, and a move is a single atomic call that takes the item out of
  its source and puts it into its target in one step. A move of an item that is not in its
  source, and a request to any other route, change nothing.
\<close>

record server_carts =
  srv_cart :: "string list"
  srv_wishlist :: "string list"

definition collection :: "CartType \<Rightarrow> server_carts \<Rightarrow> string list" where
  "collection t s = (case t of CART \<Rightarrow> srv_cart s | WISHLIST \<Rightarrow> srv_wishlist s)"

definition put_in :: "CartType \<Rightarrow> string \<Rightarrow> server_carts \<Rightarrow> server_carts" where
  "put_in t x s =
     (case t of CART \<Rightarrow> s\<lparr>srv_cart := x # srv_cart s\<rparr>
      | WISHLIST \<Rightarrow> s\<lparr>srv_wishlist := x # srv_wishlist s\<rparr>)"

definition take_out :: "CartType \<Rightarrow> string \<Rightarrow> server_carts \<Rightarrow> server_carts" where
  "take_out t x s =
     (case t of CART \<Rightarrow> s\<lparr>srv_cart := removeAll x (srv_cart s)\<rparr>
      | WISHLIST \<Rightarrow> s\<lparr>srv_wishlist := removeAll x (srv_wishlist s)\<rparr>)"

definition route_collection :: "string \<Rightarrow> CartType option" where
  "route_collection url =
     (if url = ''/api/cart/cart'' then Some CART
      else if url = ''/api/cart/wishlist'' then Some WISHLIST else None)"

definition named_collection :: "string option \<Rightarrow> CartType option" where
  "named_collection n =
     (if n = Some ''cart'' then Some CART
      else if n = Some ''wishlist'' then Some WISHLIST else None)"

definition body_item :: "(string \<times> string) list \<Rightarrow> string option" where
  "body_item b = (case map_of b ''presetId'' of Some x \<Rightarrow> Some x | None \<Rightarrow> map_of b ''packId'')"

definition serve_add :: "CartType option \<Rightarrow> string option \<Rightarrow> server_carts \<Rightarrow> server_carts" where
  "serve_add t x s =
     (case t of None \<Rightarrow> s
      | Some c \<Rightarrow> (case x of None \<Rightarrow> s | Some i \<Rightarrow> put_in c i s))"

definition serve_remove :: "CartType option \<Rightarrow> string option \<Rightarrow> server_carts \<Rightarrow> server_carts" where
  "serve_remove t x s =
     (case t of None \<Rightarrow> s
      | Some c \<Rightarrow> (case x of None \<Rightarrow> s | Some i \<Rightarrow> take_out c i s))"

definition serve_move ::
  "string option \<Rightarrow> CartType option \<Rightarrow> CartType option \<Rightarrow> server_carts \<Rightarrow> server_carts" where
  "serve_move x f t s =
     (case x of None \<Rightarrow> s
      | Some i \<Rightarrow>
          (case f of None \<Rightarrow> s
           | Some src_c \<Rightarrow>
               (case t of None \<Rightarrow> s
                | Some dst_c \<Rightarrow>
                    if i \<in> set (collection src_c s) then put_in dst_c i (take_out src_c i s)
                    else s)))"

fun serve :: "effect \<Rightarrow> server_carts \<Rightarrow> server_carts" where
  "serve (fetch_call POST url b) s = serve_add (route_collection url) (body_item b) s"
| "serve (fetch_call DELETE url b) s = serve_remove (route_collection url) (map_of b ''itemId'') s"
| "serve (fetch_call PUT url b) s =
     serve_move (map_of b ''itemId'') (named_collection (map_of b ''from''))
       (named_collection (map_of b ''to'')) s"
| "serve e s = s"

text \<open>The server's collections before the first request and after each one.\<close>

fun server_history :: "effect list \<Rightarrow> server_carts \<Rightarrow> server_carts list" where
  "server_history [] s = [s]"
| "server_history (e # es) s = s # server_history es (serve e s)"

definition in_some_collection :: "string \<Rightarrow> server_carts \<Rightarrow> bool" where
  "in_some_collection x s = (x \<in> set (srv_cart s) \<or> x \<in> set (srv_wishlist s))"









section \<open>Sample data\<close>

text \<open>A small catalog on which the statements below are evaluated.\<close>

definition demo_rows :: "preset_row list" where
  "demo_rows =
     [\<lparr>row_id = ''p1'', row_title = ''Foo Lead'', row_description = None,
       row_genreId = Some ''g1'', row_vst_type = Some ''SERUM'', row_presetType = Some ''LEAD'',
       row_createdAt = 10\<rparr>,
      \<lparr>row_id = ''p2'', row_title = ''Bass'', row_description = Some ''a fOo growl'',
       row_genreId = Some ''g2'', row_vst_type = None, row_presetType = Some ''BASS'',
       row_createdAt = 30\<rparr>,
      \<lparr>row_id = ''p3'', row_title = ''Pad'', row_description = Some ''soft'',
       row_genreId = None, row_vst_type = Some ''VITAL'', row_presetType = None,
       row_createdAt = 20\<rparr>]"

text \<open>A card on which the preview of preset \<^verbatim>\<open>B\<close> was started from the initial state.\<close>

definition playing_B :: "card_state \<times> dom" where
  "playing_B = togglePlay ''B'' (Some ''b.mp3'') (idle, no_dom)"

text \<open>The props of the hook for an owned preset seen in the uploaded view; an entry of
  the server's cart for that preset; an empty local store; a local store with one entry
  in the cart and one in the wishlist; a server's cart with two entries, neither about
  the preset; and a server whose wishlist holds the preset.\<close>

definition demo_props :: UseItemActionsProps where
  "demo_props = \<lparr>itemId = ''p1'', itemType = PRESET, contentViewMode = Some UPLOADED,
                  requestViewMode = None\<rparr>"






definition demo_server :: server_carts where
  "demo_server = \<lparr>srv_cart = [''p7''], srv_wishlist = [''p1'', ''p2'']\<rparr>"

section \<open>Facts about the query builder\<close>

lemma split_str_ne: "split_str c s \<noteq> []"
  by (induction s) auto

lemma split_str_append:
  "split_str c (a @ c # b) = split_str c a @ split_str c b"
  by (induction a) (auto simp: split_str_ne)

lemma split_str_commas: "set s \<subseteq> {c} \<Longrightarrow> set (split_str c s) \<subseteq> {[]}"
  by (induction s) auto

lemma list_param_no_empty: "[] \<notin> set (list_param p)"
  by (auto simp: list_param_def truthy_def split: option.splits)

lemma list_param_commas: "set s \<subseteq> {CHR '',''} \<Longrightarrow> list_param (Some s) = []"
  using split_str_commas[of s "CHR '',''"]
  by (auto simp: list_param_def truthy_def filter_empty_conv)

lemma list_param_empty: "absent_or_empty p \<Longrightarrow> list_param p = []"
  by (auto simp: absent_or_empty_def list_param_def truthy_def)

lemma text_param_empty: "absent_or_empty p \<Longrightarrow> trim (text_param p) = []"
  by (auto simp: absent_or_empty_def text_param_def trim_def truthy_def)

lemma list_param_leading: "list_param (Some (CHR '','' # s)) = list_param (Some s)"
  by (simp add: list_param_def truthy_def)

lemma list_param_sep:
  "list_param (Some (a @ CHR '','' # b)) = list_param (Some a) @ list_param (Some b)"
  by (simp add: list_param_def split_str_append)

lemma list_param_trailing: "list_param (Some (s @ '','')) = list_param (Some s)"
  using list_param_sep[of s "[]"] by (simp add: list_param_def truthy_def)

lemma list_param_doubled:
  "list_param (Some (a @ '',,'' @ b)) = list_param (Some (a @ '','' @ b))"
  using list_param_sep[of a "CHR '','' # b"] list_param_sep[of a b] list_param_leading[of b]
  by simp

text \<open>The clause list, one guarded clause per dimension.\<close>

lemma clauses_buildWhere:
  "clauses (buildWhere sp) =
     (if truthy (trim (text_param (sp ''searchTerm'')))
      then [OR_of [title_is (contains (trim (text_param (sp ''searchTerm''))) insensitive),
                   description_is (contains (trim (text_param (sp ''searchTerm''))) insensitive)]]
      else [])
     @ (if list_param (sp ''genres'') \<noteq> [] then [genreId_is (in_list (list_param (sp ''genres'')))] else [])
     @ (if list_param (sp ''vstTypes'') \<noteq> [] then [vst_type_is (in_list (list_param (sp ''vstTypes'')))] else [])
     @ (if list_param (sp ''presetTypes'') \<noteq> [] then [presetType_is (in_list (list_param (sp ''presetTypes'')))] else [])"
  by (simp add: buildWhere_def clauses_def Let_def)

lemma AND_of_buildWhere:
  "AND_of (buildWhere sp) = (if clauses (buildWhere sp) = [] then None else Some (clauses (buildWhere sp)))"
  by (simp add: buildWhere_def clauses_def Let_def)

lemma where_matches_clauses:
  "where_matches w r = list_all (\<lambda>i. input_matches i r) (clauses w)"
  by (simp add: where_matches_def clauses_def split: option.splits)

lemma returned_GET_db:
  "returned (GET (db_findMany table) sp :: preset_row response \<times> (string \<times> 'e) list) =
     newest_first (filter (where_matches (buildWhere sp)) table)"
  by (simp add: returned_def GET_def db_findMany_def findArgs_def order_rows_def)

lemma set_newest_first: "set (newest_first rows) = set rows"
  by (simp add: newest_first_def)

lemma mset_newest_first: "mset (newest_first rows) = mset rows"
  by (simp add: newest_first_def)

lemma sorted_newest_first: "sorted (map (\<lambda>r. - row_createdAt r) (newest_first rows))"
  by (simp add: newest_first_def)

lemma sorted_wrt_newest_first: "sorted_wrt (\<lambda>a b. row_createdAt a \<ge> row_createdAt b) (newest_first rows)"
  using sorted_newest_first[of rows] by (simp add: sorted_map sorted_wrt_iff_nth_less)

lemma input_matches_text:
  "input_matches (OR_of [title_is (contains t insensitive), description_is (contains t insensitive)]) r
     = mentions t r"
  by (cases "row_description r") (simp_all add: mentions_def)

lemma buildWhere_cong:
  "text_param (sp ''searchTerm'') = text_param (sp' ''searchTerm'') \<Longrightarrow>
   list_param (sp ''genres'') = list_param (sp' ''genres'') \<Longrightarrow>
   list_param (sp ''vstTypes'') = list_param (sp' ''vstTypes'') \<Longrightarrow>
   list_param (sp ''presetTypes'') = list_param (sp' ''presetTypes'') \<Longrightarrow>
   buildWhere sp = buildWhere sp'"
  by (simp add: buildWhere_def)

lemma list_param_None: "list_param None = []"
  by (simp add: list_param_def)

section \<open>The catalog search endpoint\<close>

text \<open>
  C1. A filter parameter that is absent or the empty string adds no clause of its dimension
  to the conjunction. When all four are absent or empty the \<^verbatim>\<open>AND\<close> property is deleted,
  so the query carries no filter, and the response is every row of the catalog, newest
  first: the same rows (as a multiset), in descending order of creation time.
\<close>

theorem C1_absent_filters_unfiltered:
  fixes table :: "preset_row list"
  shows "(absent_or_empty (sp ''searchTerm'') \<longrightarrow> text_dim \<notin> dimension_of ` set (clauses (buildWhere sp)))
    \<and> (absent_or_empty (sp ''genres'') \<longrightarrow> genre_dim \<notin> dimension_of ` set (clauses (buildWhere sp)))
    \<and> (absent_or_empty (sp ''vstTypes'') \<longrightarrow> vst_dim \<notin> dimension_of ` set (clauses (buildWhere sp)))
    \<and> (absent_or_empty (sp ''presetTypes'') \<longrightarrow> preset_dim \<notin> dimension_of ` set (clauses (buildWhere sp)))
    \<and> (absent_or_empty (sp ''searchTerm'') \<and> absent_or_empty (sp ''genres'')
         \<and> absent_or_empty (sp ''vstTypes'') \<and> absent_or_empty (sp ''presetTypes'')
        \<longrightarrow> buildWhere sp = \<lparr>AND_of = None\<rparr>
          \<and> (GET (db_findMany table) sp :: preset_row response \<times> (string \<times> 'e) list)
              = (\<lparr>status = 200, body = json_rows (newest_first table)\<rparr>, [])
          \<and> mset (newest_first table) = mset table
          \<and> sorted_wrt (\<lambda>a b. row_createdAt a \<ge> row_createdAt b) (newest_first table))"
proof -
  have t: "absent_or_empty (sp ''searchTerm'') \<Longrightarrow> text_dim \<notin> dimension_of ` set (clauses (buildWhere sp))"
    by (auto simp: clauses_buildWhere text_param_empty truthy_def)
  have g: "absent_or_empty (sp ''genres'') \<Longrightarrow> genre_dim \<notin> dimension_of ` set (clauses (buildWhere sp))"
    by (auto simp: clauses_buildWhere list_param_empty)
  have v: "absent_or_empty (sp ''vstTypes'') \<Longrightarrow> vst_dim \<notin> dimension_of ` set (clauses (buildWhere sp))"
    by (auto simp: clauses_buildWhere list_param_empty)
  have p: "absent_or_empty (sp ''presetTypes'') \<Longrightarrow> preset_dim \<notin> dimension_of ` set (clauses (buildWhere sp))"
    by (auto simp: clauses_buildWhere list_param_empty)
  have a: "buildWhere sp = \<lparr>AND_of = None\<rparr>
          \<and> (GET (db_findMany table) sp :: preset_row response \<times> (string \<times> 'e) list)
              = (\<lparr>status = 200, body = json_rows (newest_first table)\<rparr>, [])"
    if "absent_or_empty (sp ''searchTerm'')" "absent_or_empty (sp ''genres'')"
       "absent_or_empty (sp ''vstTypes'')" "absent_or_empty (sp ''presetTypes'')"
  proof -
    have w: "buildWhere sp = \<lparr>AND_of = None\<rparr>"
      using that
      by (simp add: buildWhere_def Let_def text_param_empty list_param_empty truthy_def)
    show ?thesis
      by (simp add: w GET_def db_findMany_def findArgs_def order_rows_def where_matches_def)
  qed
  show ?thesis
    using t g v p a mset_newest_first[of table] sorted_wrt_newest_first[of table] by blast
qed

theorem C1_absent_filters_unfiltered_witness:
  "absent_or_empty ([''searchTerm'' \<mapsto> '''', ''genres'' \<mapsto> ''''] ''searchTerm'')
   \<and> absent_or_empty ([''searchTerm'' \<mapsto> '''', ''genres'' \<mapsto> ''''] ''genres'')
   \<and> absent_or_empty ([''searchTerm'' \<mapsto> '''', ''genres'' \<mapsto> ''''] ''vstTypes'')
   \<and> absent_or_empty ([''searchTerm'' \<mapsto> '''', ''genres'' \<mapsto> ''''] ''presetTypes'')
   \<and> buildWhere [''searchTerm'' \<mapsto> '''', ''genres'' \<mapsto> ''''] = \<lparr>AND_of = None\<rparr>
   \<and> (GET (db_findMany demo_rows) [''searchTerm'' \<mapsto> '''', ''genres'' \<mapsto> '''']
         :: preset_row response \<times> (string \<times> unit) list)
       = (\<lparr>status = 200, body = json_rows [demo_rows ! 1, demo_rows ! 2, demo_rows ! 0]\<rparr>, [])"
proof -
  let ?sp = "[''searchTerm'' \<mapsto> '''', ''genres'' \<mapsto> ''''] :: string \<rightharpoonup> string"
  have h: "absent_or_empty (?sp ''searchTerm'')" "absent_or_empty (?sp ''genres'')"
    "absent_or_empty (?sp ''vstTypes'')" "absent_or_empty (?sp ''presetTypes'')"
    by (simp_all add: absent_or_empty_def)
  have n: "newest_first demo_rows = [demo_rows ! 1, demo_rows ! 2, demo_rows ! 0]"
    by (simp add: newest_first_def demo_rows_def)
  from C1_absent_filters_unfiltered[of ?sp demo_rows, where ?'e = unit] h n
  show ?thesis by simp
qed

text \<open>
  C6. Whatever the request, when the ORM call raises, the handler logs the error with
  \<^verbatim>\<open>console.error\<close> and answers with status 500 and the object
  \<^verbatim>\<open>{ error: "Failed to fetch presets" }\<close>; the response carries no rows.
\<close>

theorem C6_persistence_error_is_500:
  assumes "findMany (findArgs sp) = Inl e"
  shows "GET findMany sp =
           (\<lparr>status = 500, body = json_error ''Failed to fetch presets''\<rparr>,
            [(''Error fetching marketplace presets:'', e)])
         \<and> returned (GET findMany sp) = []"
  using assms by (simp add: GET_def returned_def)

theorem C6_persistence_error_is_500_witness:
  "(\<lambda>a. Inl ''connection lost'') (findArgs [''genres'' \<mapsto> ''g1'']) = (Inl ''connection lost'' :: string + preset_row list)
   \<and> GET (\<lambda>a. Inl ''connection lost'' :: string + preset_row list) [''genres'' \<mapsto> ''g1''] =
        (\<lparr>status = 500, body = json_error ''Failed to fetch presets''\<rparr>,
         [(''Error fetching marketplace presets:'', ''connection lost'')])
   \<and> returned (GET (\<lambda>a. Inl ''connection lost'' :: string + preset_row list) [''genres'' \<mapsto> ''g1'']) = []"
  using C6_persistence_error_is_500[of "\<lambda>a. Inl ''connection lost'' :: string + preset_row list"
      "[''genres'' \<mapsto> ''g1'']" "''connection lost''"]
  by blast

text \<open>
  C7, as stated: for every non-empty search term, every returned row has the term, letter
  case ignored, in its title or description. It fails for the term \<^verbatim>\<open>" foo"\<close>: the handler
  searches for the trimmed term, so the row titled \<^verbatim>\<open>"Foo Lead"\<close> is returned, and it has
  no \<^verbatim>\<open>" foo"\<close> in it.
\<close>

theorem C7_untrimmed_term_counterexample:
  "\<not> (\<forall>term table. term \<noteq> [] \<longrightarrow>
        (\<forall>r \<in> set (returned (GET (db_findMany table) [''searchTerm'' \<mapsto> term]
                              :: preset_row response \<times> (string \<times> unit) list)).
           mentions term r))"
proof
  assume a: "\<forall>term table. term \<noteq> [] \<longrightarrow>
        (\<forall>r \<in> set (returned (GET (db_findMany table) [''searchTerm'' \<mapsto> term]
                              :: preset_row response \<times> (string \<times> unit) list)).
           mentions term r)"
  have r: "returned (GET (db_findMany [demo_rows ! 0]) [''searchTerm'' \<mapsto> '' foo'']
             :: preset_row response \<times> (string \<times> unit) list) = [demo_rows ! 0]"
    by (simp add: returned_GET_db newest_first_def where_matches_def buildWhere_def
        text_param_def list_param_def truthy_def trim_def is_ws_def demo_rows_def
        to_lower_def sublist_code)
  have m: "\<not> mentions '' foo'' (demo_rows ! 0)"
    by (simp add: mentions_def demo_rows_def to_lower_def sublist_code)
  from a have "\<forall>r \<in> set (returned (GET (db_findMany [demo_rows ! 0]) [''searchTerm'' \<mapsto> '' foo'']
                              :: preset_row response \<times> (string \<times> unit) list)).
           mentions '' foo'' r"
    by blast
  with r m show False by simp
qed

text \<open>
  C7, amended: for every search term whose trimmed form is not empty, every returned row
  has the trimmed term, letter case ignored, in its title or in its description.
\<close>

theorem C7_trimmed_term_matches:
  assumes "sp ''searchTerm'' = Some term" and "trim term \<noteq> []"
  shows "OR_of [title_is (contains (trim term) insensitive),
                description_is (contains (trim term) insensitive)]
           \<in> set (clauses (buildWhere sp))
    \<and> (\<forall>r \<in> set (returned (GET (db_findMany table) sp
                        :: preset_row response \<times> (string \<times> 'e) list)).
           mentions (trim term) r)"
proof -
  have "term \<noteq> []" using assms(2) by (auto simp: trim_def)
  then have t: "text_param (sp ''searchTerm'') = term"
    using assms(1) by (simp add: text_param_def truthy_def)
  have c: "OR_of [title_is (contains (trim term) insensitive),
               description_is (contains (trim term) insensitive)] \<in> set (clauses (buildWhere sp))"
    using assms(2) by (simp add: clauses_buildWhere t truthy_def)
  then have "where_matches (buildWhere sp) r \<Longrightarrow> mentions (trim term) r" for r
    unfolding where_matches_clauses list_all_iff input_matches_text[symmetric] by blast
  then have "\<forall>r \<in> set (returned (GET (db_findMany table) sp
                        :: preset_row response \<times> (string \<times> 'e) list)).
           mentions (trim term) r"
    by (auto simp: returned_GET_db set_newest_first)
  with c show ?thesis by (rule conjI)
qed

theorem C7_trimmed_term_matches_witness:
  "[''searchTerm'' \<mapsto> '' foo''] ''searchTerm'' = Some '' foo'' \<and> trim '' foo'' \<noteq> []
   \<and> returned (GET (db_findMany demo_rows) [''searchTerm'' \<mapsto> '' foo'']
         :: preset_row response \<times> (string \<times> unit) list) = [demo_rows ! 1, demo_rows ! 0]
   \<and> mentions (trim '' foo'') (demo_rows ! 1) \<and> mentions (trim '' foo'') (demo_rows ! 0)"
proof -
  have h1: "[''searchTerm'' \<mapsto> '' foo''] ''searchTerm'' = Some '' foo''" by simp
  have h2: "trim '' foo'' \<noteq> []" by (simp add: trim_def is_ws_def)
  have r: "returned (GET (db_findMany demo_rows) [''searchTerm'' \<mapsto> '' foo'']
         :: preset_row response \<times> (string \<times> unit) list) = [demo_rows ! 1, demo_rows ! 0]"
    by (simp add: returned_GET_db newest_first_def where_matches_def buildWhere_def
        text_param_def list_param_def truthy_def trim_def is_ws_def demo_rows_def
        to_lower_def sublist_code)
  from C7_trimmed_term_matches[of "[''searchTerm'' \<mapsto> '' foo'']" "'' foo''" demo_rows,
      where ?'e = unit] h1 h2 r
  show ?thesis by simp
qed

text \<open>
  C8. When the \<^verbatim>\<open>genres\<close> parameter gives a non-empty list, every returned row has a genre
  identifier and it is a member of that list.
\<close>

theorem C8_genres_filter_membership:
  assumes "list_param (sp ''genres'') \<noteq> []"
  shows "genreId_is (in_list (list_param (sp ''genres''))) \<in> set (clauses (buildWhere sp))
    \<and> (\<forall>r \<in> set (returned (GET (db_findMany table) sp
                        :: preset_row response \<times> (string \<times> 'e) list)).
           \<exists>g \<in> set (list_param (sp ''genres'')). row_genreId r = Some g)"
proof -
  have c: "genreId_is (in_list (list_param (sp ''genres''))) \<in> set (clauses (buildWhere sp))"
    using assms by (simp add: clauses_buildWhere)
  then have "where_matches (buildWhere sp) r \<Longrightarrow>
      \<exists>g \<in> set (list_param (sp ''genres'')). row_genreId r = Some g" for r
    unfolding where_matches_clauses list_all_iff
    by (cases "row_genreId r") force+
  then have "\<forall>r \<in> set (returned (GET (db_findMany table) sp
                        :: preset_row response \<times> (string \<times> 'e) list)).
           \<exists>g \<in> set (list_param (sp ''genres'')). row_genreId r = Some g"
    by (auto simp: returned_GET_db set_newest_first)
  with c show ?thesis by (rule conjI)
qed

theorem C8_genres_filter_membership_witness:
  "list_param ([''genres'' \<mapsto> ''g2,,g9''] ''genres'') = [''g2'', ''g9'']
   \<and> returned (GET (db_findMany demo_rows) [''genres'' \<mapsto> ''g2,,g9'']
         :: preset_row response \<times> (string \<times> unit) list) = [demo_rows ! 1]
   \<and> row_genreId (demo_rows ! 1) = Some ''g2''"
proof -
  have l: "list_param ([''genres'' \<mapsto> ''g2,,g9''] ''genres'') = [''g2'', ''g9'']"
    by (simp add: list_param_def truthy_def)
  then have h: "list_param ([''genres'' \<mapsto> ''g2,,g9''] ''genres'') \<noteq> []" by simp
  have r: "returned (GET (db_findMany demo_rows) [''genres'' \<mapsto> ''g2,,g9'']
         :: preset_row response \<times> (string \<times> unit) list) = [demo_rows ! 1]"
    by (simp add: returned_GET_db newest_first_def where_matches_def buildWhere_def
        text_param_def list_param_def truthy_def trim_def is_ws_def demo_rows_def)
  from C8_genres_filter_membership[of "[''genres'' \<mapsto> ''g2,,g9'']" demo_rows,
      where ?'e = unit] h l r
  show ?thesis by (simp add: demo_rows_def)
qed

text \<open>
  C10. The list of a list-valued parameter never has an empty segment: a leading, a
  trailing and a doubled comma change nothing. A value made of commas only gives the list
  of an absent parameter, so for each of \<^verbatim>\<open>genres\<close>, \<^verbatim>\<open>vstTypes\<close> and \<^verbatim>\<open>presetTypes\<close> the
  query and the response are those of the request without the parameter, and the
  conjunction has no clause of that dimension.
\<close>

theorem C10_comma_only_lists_are_absent:
  assumes "name \<in> {''genres'', ''vstTypes'', ''presetTypes''}" and "set s \<subseteq> {CHR '',''}"
  shows "[] \<notin> set (list_param (Some v))
    \<and> list_param (Some (CHR '','' # v)) = list_param (Some v)
    \<and> list_param (Some (v @ '','')) = list_param (Some v)
    \<and> list_param (Some (a @ '',,'' @ b)) = list_param (Some (a @ '','' @ b))
    \<and> list_param (Some s) = list_param None
    \<and> buildWhere (sp(name \<mapsto> s)) = buildWhere (sp(name := None))
    \<and> GET findMany (sp(name \<mapsto> s)) = GET findMany (sp(name := None))
    \<and> genre_dim \<notin> dimension_of ` set (clauses (buildWhere (sp(''genres'' \<mapsto> s))))
    \<and> vst_dim \<notin> dimension_of ` set (clauses (buildWhere (sp(''vstTypes'' \<mapsto> s))))
    \<and> preset_dim \<notin> dimension_of ` set (clauses (buildWhere (sp(''presetTypes'' \<mapsto> s))))"
proof -
  have e: "list_param (Some s) = list_param None"
    using assms(2) by (simp add: list_param_commas list_param_None)
  have w: "buildWhere (sp(name \<mapsto> s)) = buildWhere (sp(name := None))"
    using assms(1) by (intro buildWhere_cong) (auto simp: e)
  have g: "GET findMany (sp(name \<mapsto> s)) = GET findMany (sp(name := None))"
    by (simp add: GET_def findArgs_def w)
  have d1: "genre_dim \<notin> dimension_of ` set (clauses (buildWhere (sp(''genres'' \<mapsto> s))))"
    by (auto simp: clauses_buildWhere e list_param_None)
  have d2: "vst_dim \<notin> dimension_of ` set (clauses (buildWhere (sp(''vstTypes'' \<mapsto> s))))"
    by (auto simp: clauses_buildWhere e list_param_None)
  have d3: "preset_dim \<notin> dimension_of ` set (clauses (buildWhere (sp(''presetTypes'' \<mapsto> s))))"
    by (auto simp: clauses_buildWhere e list_param_None)
  show ?thesis
    using e w g d1 d2 d3 list_param_no_empty[of "Some v"] list_param_leading[of v]
      list_param_trailing[of v] list_param_doubled[of a b]
    by blast
qed


theorem C10_comma_only_lists_are_absent_witness:
  "''vstTypes'' \<in> {''genres'', ''vstTypes'', ''presetTypes''} \<and> set '','' \<subseteq> {CHR '',''}
   \<and> list_param (Some '','') = list_param None
   \<and> buildWhere ([''genres'' \<mapsto> ''g1''](''vstTypes'' \<mapsto> '',''))
       = buildWhere ([''genres'' \<mapsto> ''g1''](''vstTypes'' := None))
   \<and> buildWhere ([''genres'' \<mapsto> ''g1''](''vstTypes'' \<mapsto> '',''))
       = \<lparr>AND_of = Some [genreId_is (in_list [''g1''])]\<rparr>
   \<and> list_param (Some '',a,,b,'') = [''a'', ''b'']"
proof -
  have h1: "''vstTypes'' \<in> {''genres'', ''vstTypes'', ''presetTypes''}" by simp
  have h2: "set '','' \<subseteq> {CHR '',''}" by simp
  have b: "buildWhere ([''genres'' \<mapsto> ''g1''](''vstTypes'' \<mapsto> '',''))
       = \<lparr>AND_of = Some [genreId_is (in_list [''g1''])]\<rparr>"
    by (simp add: buildWhere_def text_param_def list_param_def truthy_def trim_def)
  have l: "list_param (Some '',a,,b,'') = [''a'', ''b'']"
    by (simp add: list_param_def truthy_def)
  note t = C10_comma_only_lists_are_absent[OF h1 h2, of "[]" "[]" "[]" "[''genres'' \<mapsto> ''g1'']"
      "\<lambda>a. Inr [] :: unit + preset_row list"]
  from t have e: "list_param (Some '','') = list_param None"
    by (elim conjE)
  from t have w: "buildWhere ([''genres'' \<mapsto> ''g1''](''vstTypes'' \<mapsto> '','')) =
      buildWhere ([''genres'' \<mapsto> ''g1''](''vstTypes'' := None))"
    by (elim conjE)
  show ?thesis
    by (intro conjI h1 h2 e w b l)
qed

section \<open>The audio preview\<close>

lemmas audio_defs = togglePlay_def cleanupAudio_def addEventListener_def removeEventListener_def
  audio_play_def audio_pause_def map_elem_def add_toast_def truthy_def Let_def

lemma playing_B_eq:
  "playing_B =
     (\<lparr>activePreset = Some ''B'', audio = Some 0, isPlaying = True\<rparr>,
      \<lparr>elems = [\<lparr>src = ''b.mp3'', paused = False,
                 listeners = [(ended_ev, 0, on_ended_reset), (error_ev, 1, on_error_cleanup None)]\<rparr>],
       next_fn = 3, catches = [(0, 2, on_play_rejected None)], toasts = []\<rparr>)"
  by (simp add: playing_B_def idle_def no_dom_def audio_defs)

lemma commit_same: "audio (fst sw) = r \<Longrightarrow> commit r sw = sw"
  by simp

lemma commit_step: "audio (fst sw) \<noteq> r \<Longrightarrow> commit r sw = commit (audio (fst sw)) (cleanupAudio r sw)"
  by simp

lemma removeEventListener_fresh:
  assumes "list_all (\<lambda>l. fst (snd l) < fid) (listeners (elems w ! h))"
  shows "removeEventListener h ty fid w = w"
proof (cases "h < length (elems w)")
  case True
  have "filter (\<lambda>l. \<not> (fst l = ty \<and> fst (snd l) = fid)) (listeners (elems w ! h))
      = listeners (elems w ! h)"
    using assms by (auto simp: list_all_iff filter_id_conv)
  then show ?thesis
    using True by (simp add: removeEventListener_def map_elem_def list_update_same_conv)
next
  case False
  then show ?thesis by (simp add: removeEventListener_def map_elem_def)
qed

lemma cleanupAudio_detaches_nothing:
  assumes "list_all (\<lambda>l. fst (snd l) < next_fn w) (listeners (elems w ! h))"
  shows "listeners (elems (snd (cleanupAudio (Some h) (st, w))) ! k) = listeners (elems w ! k)"
proof -
  let ?w1 = "(audio_pause h w)\<lparr>next_fn := next_fn w + 1\<rparr>"
  have l: "listeners (elems ?w1 ! j) = listeners (elems w ! j)" for j
    by (cases "j = h") (simp_all add: audio_pause_def map_elem_def)
  have n: "next_fn (audio_pause h w) = next_fn w"
    by (simp add: audio_pause_def map_elem_def)
  have "list_all (\<lambda>l. fst (snd l) < next_fn w) (listeners (elems ?w1 ! h))"
    using assms by (simp only: l)
  then have "removeEventListener h ended_ev (next_fn w) ?w1 = ?w1"
    by (rule removeEventListener_fresh)
  then show ?thesis
    using l[of k] by (simp add: cleanupAudio_def Let_def n)
qed

text \<open>
  C9. While an item is playing, toggling it pauses its element and clears the playing flag;
  toggling it again plays the same element and sets the flag. Neither toggle changes the
  \<^verbatim>\<open>audio\<close> handle, creates an element, or touches the element's source and listeners,
  and since \<^verbatim>\<open>audio\<close> is unchanged the effect's cleanup does not run.
\<close>

theorem C9_toggle_same_item_keeps_handle:
  assumes "activePreset st = Some p" and "audio st = Some h" and "isPlaying st"
    and "h < length (elems w)" and "truthy url"
  shows "togglePlay p (Some url) (st, w) = (st\<lparr>isPlaying := False\<rparr>, audio_pause h w)
    \<and> audio (fst (togglePlay p (Some url) (st, w))) = Some h
    \<and> length (elems (snd (togglePlay p (Some url) (st, w)))) = length (elems w)
    \<and> elems (snd (togglePlay p (Some url) (st, w))) ! h = (elems w ! h)\<lparr>paused := True\<rparr>
    \<and> commit (Some h) (togglePlay p (Some url) (st, w)) = togglePlay p (Some url) (st, w)
    \<and> fst (togglePlay p (Some url) (togglePlay p (Some url) (st, w))) = st
    \<and> length (elems (snd (togglePlay p (Some url) (togglePlay p (Some url) (st, w))))) = length (elems w)
    \<and> elems (snd (togglePlay p (Some url) (togglePlay p (Some url) (st, w)))) ! h
        = (elems w ! h)\<lparr>paused := False\<rparr>
    \<and> commit (Some h) (togglePlay p (Some url) (togglePlay p (Some url) (st, w)))
        = togglePlay p (Some url) (togglePlay p (Some url) (st, w))"
proof -
  have 1: "togglePlay p (Some url) (st, w) = (st\<lparr>isPlaying := False\<rparr>, audio_pause h w)"
    using assms by (simp add: togglePlay_def Let_def)
  have 2: "togglePlay p (Some url) (st\<lparr>isPlaying := False\<rparr>, audio_pause h w)
      = (st, (audio_play h (audio_pause h w))
              \<lparr>catches := catches w @ [(h, next_fn w, on_play_rejected (Some h))],
               next_fn := next_fn w + 1\<rparr>)"
    using assms by (simp add: togglePlay_def Let_def audio_pause_def audio_play_def map_elem_def)
  have 3: "elems (audio_pause h w) ! h = (elems w ! h)\<lparr>paused := True\<rparr>"
    "length (elems (audio_pause h w)) = length (elems w)"
    using assms(4) by (simp_all add: audio_pause_def map_elem_def)
  have 4: "elems (audio_play h (audio_pause h w)) ! h = (elems w ! h)\<lparr>paused := False\<rparr>"
    "length (elems (audio_play h (audio_pause h w))) = length (elems w)"
    using assms(4) by (simp_all add: audio_pause_def audio_play_def map_elem_def)
  show ?thesis
    unfolding 1 2 using assms(2) 3 4 by (simp add: commit_same)
qed

theorem C9_toggle_same_item_keeps_handle_witness:
  "activePreset (fst playing_B) = Some ''B'' \<and> audio (fst playing_B) = Some 0
   \<and> isPlaying (fst playing_B) \<and> 0 < length (elems (snd playing_B)) \<and> truthy ''b.mp3''
   \<and> togglePlay ''B'' (Some ''b.mp3'') playing_B
       = (\<lparr>activePreset = Some ''B'', audio = Some 0, isPlaying = False\<rparr>,
          \<lparr>elems = [\<lparr>src = ''b.mp3'', paused = True,
                     listeners = [(ended_ev, 0, on_ended_reset), (error_ev, 1, on_error_cleanup None)]\<rparr>],
           next_fn = 3, catches = [(0, 2, on_play_rejected None)], toasts = []\<rparr>)
   \<and> fst (togglePlay ''B'' (Some ''b.mp3'') (togglePlay ''B'' (Some ''b.mp3'') playing_B))
       = fst playing_B"
proof -
  have h: "activePreset (fst playing_B) = Some ''B''" "audio (fst playing_B) = Some 0"
    "isPlaying (fst playing_B)" "0 < length (elems (snd playing_B))" "truthy ''b.mp3''"
    by (simp_all add: playing_B_eq truthy_def)
  note t = C9_toggle_same_item_keeps_handle[OF h]
  have p: "(fst playing_B, snd playing_B) = playing_B" by simp
  from t have a: "togglePlay ''B'' (Some ''b.mp3'') playing_B
      = ((fst playing_B)\<lparr>isPlaying := False\<rparr>, audio_pause 0 (snd playing_B))"
    unfolding p by (elim conjE)
  from t have b: "fst (togglePlay ''B'' (Some ''b.mp3'') (togglePlay ''B'' (Some ''b.mp3'') playing_B))
       = fst playing_B"
    unfolding p by (elim conjE)
  have c: "((fst playing_B)\<lparr>isPlaying := False\<rparr>, audio_pause 0 (snd playing_B))
      = (\<lparr>activePreset = Some ''B'', audio = Some 0, isPlaying = False\<rparr>,
          \<lparr>elems = [\<lparr>src = ''b.mp3'', paused = True,
                     listeners = [(ended_ev, 0, on_ended_reset), (error_ev, 1, on_error_cleanup None)]\<rparr>],
           next_fn = 3, catches = [(0, 2, on_play_rejected None)], toasts = []\<rparr>)"
    by (simp add: playing_B_eq audio_pause_def map_elem_def)
  show ?thesis
    using h a[unfolded c] b by (intro conjI)
qed

text \<open>
  C2 asks that a switch from item B to item A fully tears down B's element, its listeners
  included, before A plays. Evaluated on the card that plays B: \<^verbatim>\<open>togglePlay("A", "a.mp3")\<close>
  pauses B's element and makes A's, but B's element keeps both listeners, because
  \<^verbatim>\<open>removeEventListener\<close> is given a new function and only for \<^verbatim>\<open>ended\<close>. The cleanup of the
  effect, which closed over B's element, then resets the state, and the next one pauses A.
\<close>

theorem C2_switch_keeps_old_listeners:
  "togglePlay ''A'' (Some ''a.mp3'') playing_B =
     (\<lparr>activePreset = Some ''A'', audio = Some 1, isPlaying = True\<rparr>,
      \<lparr>elems = [\<lparr>src = ''b.mp3'', paused = True,
                 listeners = [(ended_ev, 0, on_ended_reset), (error_ev, 1, on_error_cleanup None)]\<rparr>,
                \<lparr>src = ''a.mp3'', paused = False,
                 listeners = [(ended_ev, 4, on_ended_reset), (error_ev, 5, on_error_cleanup (Some 0))]\<rparr>],
       next_fn = 7,
       catches = [(0, 2, on_play_rejected None), (1, 6, on_play_rejected (Some 0))],
       toasts = []\<rparr>)
   \<and> listeners (elems (snd (togglePlay ''A'' (Some ''a.mp3'') playing_B)) ! 0)
       = listeners (elems (snd playing_B) ! 0)
   \<and> listeners (elems (snd playing_B) ! 0) \<noteq> []
   \<and> commit (Some 0) (togglePlay ''A'' (Some ''a.mp3'') playing_B) =
     (idle,
      \<lparr>elems = [\<lparr>src = ''b.mp3'', paused = True,
                 listeners = [(ended_ev, 0, on_ended_reset), (error_ev, 1, on_error_cleanup None)]\<rparr>,
                \<lparr>src = ''a.mp3'', paused = True,
                 listeners = [(ended_ev, 4, on_ended_reset), (error_ev, 5, on_error_cleanup (Some 0))]\<rparr>],
       next_fn = 9,
       catches = [(0, 2, on_play_rejected None), (1, 6, on_play_rejected (Some 0))],
       toasts = []\<rparr>)"
  by (simp add: playing_B_eq idle_def audio_defs del: commit.simps add: commit_step commit_same)

section \<open>The item actions\<close>

lemma redirect_in_handleDelete: "set (handle_redirect p) \<subseteq> set (handleDelete p r)"
  by (auto simp: handleDelete_def)


lemmas server_defs = serve_add_def serve_remove_def serve_move_def route_collection_def
  named_collection_def body_item_def put_in_def take_out_def collection_def in_some_collection_def

lemma handleMoveToCart_success:
  "handleMoveToCart p WISHLIST (Inr ()) =
      [dispatched (moveItem (itemId p) WISHLIST CART),
       dispatched (fetchCartItems CART), dispatched (fetchCartItems WISHLIST),
       toast_shown (toast_success (itemType_str (itemType p) @ '' moved to cart''))]"
  by (simp add: handleMoveToCart_def)

text \<open>The mutation, when it is run and the server answers with success: one request,
  then one invalidation per query.\<close>

lemma moveItemMutation_success:
  "moveItemMutation p ''wishlist'' (fetch_replied True (Inr e)) =
      [fetch_call PUT ''/api/cart/wishlist''
         [(''itemId'', itemId p), (''from'', ''wishlist''), (''to'', ''cart'')],
       invalidateQueries [''cart''], invalidateQueries [''wishlist''],
       toast_shown (toast_success (capitalize (itemType_str (itemType p)) @ '' moved to cart''))]"
  by (simp add: moveItemMutation_def mutationFn_result_def)

lemma handler_sends_the_request_of_the_mutation:
  "server_requests (handleMoveToCart p WISHLIST (Inr ()))
     = server_requests (moveItemMutation p ''wishlist'' (fetch_replied True (Inr e)))"
  by (simp add: handleMoveToCart_success moveItemMutation_success server_requests_def)

text \<open>A move made of a remove and an add would pass through a state of the server in
  which the item is in neither collection.\<close>

lemma remove_then_add_leaves_gap:
  assumes "x \<notin> set (srv_cart s)"
  shows "\<not> list_all (in_some_collection x)
           (server_history
              [fetch_call DELETE ''/api/cart/wishlist'' [(''itemId'', x)],
               fetch_call POST ''/api/cart/cart'' [(''presetId'', x)]] s)"
  using assms by (simp add: server_defs)

text \<open>
  C5 asks that a failed delete does not navigate. Evaluated for an owned preset in the
  uploaded view whose delete the server refuses: the mutation alone only shows the error,
  but \<^verbatim>\<open>handleDelete\<close> has already pushed the dashboard route, since it does not wait for
  the result.
\<close>

theorem C5_failed_delete_still_navigates:
  "handleDelete demo_props (fetch_replied False (Inr (Some ''Not allowed'')))
     = [fetch_call DELETE ''/api/PRESETs/p1'' [],
        router_push ''/dashboard/PRESETs'',
        toast_shown (toast_error ''Not allowed'')]
   \<and> deleteItemMutation demo_props (fetch_replied False (Inr (Some ''Not allowed'')))
     = [fetch_call DELETE ''/api/PRESETs/p1'' [], toast_shown (toast_error ''Not allowed'')]"
  by (simp add: handleDelete_def deleteItemMutation_def delete_request_def handle_redirect_def
      delete_settled_def mutationFn_result_def or_else_def truthy_def demo_props_def)

text \<open>
  C4, as stated: every successful move from the wishlist to the cart invalidates the cart
  cache and the wishlist cache exactly once each. The move a caller of the hook can make is
  \<^verbatim>\<open>handleMoveToCart\<close>, and it calls \<^verbatim>\<open>invalidateQueries\<close> for neither query: it
  dispatches the move and two re-fetches.
\<close>

theorem C4_handler_invalidates_no_cache_counterexample:
  "count_list (handleMoveToCart demo_props WISHLIST (Inr ())) (invalidateQueries [''cart'']) = 0
   \<and> count_list (handleMoveToCart demo_props WISHLIST (Inr ())) (invalidateQueries [''wishlist'']) = 0
   \<and> handleMoveToCart demo_props WISHLIST (Inr ()) =
      [dispatched (moveItem ''p1'' WISHLIST CART),
       dispatched (fetchCartItems CART), dispatched (fetchCartItems WISHLIST),
       toast_shown (toast_success ''PRESET moved to cart'')]"
  by (simp add: handleMoveToCart_def demo_props_def)

text \<open>
  C4, amended: a successful move from the wishlist to the cart by \<^verbatim>\<open>handleMoveToCart\<close>
  re-fetches the cart and the wishlist exactly once each and invalidates no query; apart
  from the two re-fetches it dispatches one \<^verbatim>\<open>moveItem\<close> and shows one toast, so the move
  is one request to the server, the \<^verbatim>\<open>PUT\<close> that names the item, its source and its target.
  When the server's wishlist holds the item, the server handles that request in one step:
  the item is in one of the two collections before and after it. A failed move re-fetches
  nothing.
\<close>

theorem C4_move_refetches_each_collection_once:
  "count_list (handleMoveToCart p WISHLIST (Inr ())) (dispatched (fetchCartItems CART)) = 1
   \<and> count_list (handleMoveToCart p WISHLIST (Inr ())) (dispatched (fetchCartItems WISHLIST)) = 1
   \<and> count_list (handleMoveToCart p WISHLIST (Inr ())) (invalidateQueries k) = 0
   \<and> filter (\<lambda>e. e \<noteq> dispatched (fetchCartItems CART) \<and> e \<noteq> dispatched (fetchCartItems WISHLIST))
        (handleMoveToCart p WISHLIST (Inr ()))
       = [dispatched (moveItem (itemId p) WISHLIST CART),
          toast_shown (toast_success (itemType_str (itemType p) @ '' moved to cart''))]
   \<and> server_requests (handleMoveToCart p WISHLIST (Inr ()))
       = [fetch_call PUT ''/api/cart/wishlist''
            [(''itemId'', itemId p), (''from'', ''wishlist''), (''to'', ''cart'')]]
   \<and> (itemId p \<in> set (srv_wishlist s) \<longrightarrow>
        server_history (server_requests (handleMoveToCart p WISHLIST (Inr ()))) s
          = [s, \<lparr>srv_cart = itemId p # srv_cart s,
                 srv_wishlist = removeAll (itemId p) (srv_wishlist s)\<rparr>]
        \<and> list_all (in_some_collection (itemId p))
            (server_history (server_requests (handleMoveToCart p WISHLIST (Inr ()))) s))
   \<and> handleMoveToCart p WISHLIST (Inl e)
       = [dispatched (moveItem (itemId p) WISHLIST CART),
          toast_shown (toast_error (catch_message e ''Failed to move item''))]"
proof -
  have c: "count_list (handleMoveToCart p WISHLIST (Inr ())) (dispatched (fetchCartItems CART)) = 1"
    "count_list (handleMoveToCart p WISHLIST (Inr ())) (dispatched (fetchCartItems WISHLIST)) = 1"
    "count_list (handleMoveToCart p WISHLIST (Inr ())) (invalidateQueries k) = 0"
    "filter (\<lambda>e. e \<noteq> dispatched (fetchCartItems CART) \<and> e \<noteq> dispatched (fetchCartItems WISHLIST))
        (handleMoveToCart p WISHLIST (Inr ()))
       = [dispatched (moveItem (itemId p) WISHLIST CART),
          toast_shown (toast_success (itemType_str (itemType p) @ '' moved to cart''))]"
    unfolding handleMoveToCart_success by simp_all
  have r: "server_requests (handleMoveToCart p WISHLIST (Inr ()))
       = [fetch_call PUT ''/api/cart/wishlist''
            [(''itemId'', itemId p), (''from'', ''wishlist''), (''to'', ''cart'')]]"
    unfolding handleMoveToCart_success by (simp add: server_requests_def)
  have h: "server_history (server_requests (handleMoveToCart p WISHLIST (Inr ()))) s
          = [s, \<lparr>srv_cart = itemId p # srv_cart s,
                 srv_wishlist = removeAll (itemId p) (srv_wishlist s)\<rparr>]
        \<and> list_all (in_some_collection (itemId p))
            (server_history (server_requests (handleMoveToCart p WISHLIST (Inr ()))) s)"
    if "itemId p \<in> set (srv_wishlist s)"
    unfolding r using that by (simp add: server_defs)
  have f: "handleMoveToCart p WISHLIST (Inl e)
       = [dispatched (moveItem (itemId p) WISHLIST CART),
          toast_shown (toast_error (catch_message e ''Failed to move item''))]"
    by (simp add: handleMoveToCart_def)
  show ?thesis
    using c r h f by blast
qed

theorem C4_move_refetches_each_collection_once_witness:
  "itemId demo_props \<in> set (srv_wishlist demo_server)
   \<and> server_requests (handleMoveToCart demo_props WISHLIST (Inr ()))
       = [fetch_call PUT ''/api/cart/wishlist''
            [(''itemId'', ''p1''), (''from'', ''wishlist''), (''to'', ''cart'')]]
   \<and> server_history (server_requests (handleMoveToCart demo_props WISHLIST (Inr ()))) demo_server
       = [\<lparr>srv_cart = [''p7''], srv_wishlist = [''p1'', ''p2'']\<rparr>,
          \<lparr>srv_cart = [''p1'', ''p7''], srv_wishlist = [''p2'']\<rparr>]
   \<and> list_all (in_some_collection (itemId demo_props))
        (server_history (server_requests (handleMoveToCart demo_props WISHLIST (Inr ()))) demo_server)
   \<and> count_list (handleMoveToCart demo_props WISHLIST (Inr ())) (dispatched (fetchCartItems CART)) = 1
   \<and> count_list (handleMoveToCart demo_props WISHLIST (Inr ())) (dispatched (fetchCartItems WISHLIST)) = 1"
proof -
  have h: "itemId demo_props \<in> set (srv_wishlist demo_server)"
    by (simp add: demo_props_def demo_server_def)
  note t = C4_move_refetches_each_collection_once[of demo_props "[]" demo_server thrown_other]
  from t have a: "count_list (handleMoveToCart demo_props WISHLIST (Inr ())) (dispatched (fetchCartItems CART)) = 1"
    by (elim conjE)
  from t have b: "count_list (handleMoveToCart demo_props WISHLIST (Inr ())) (dispatched (fetchCartItems WISHLIST)) = 1"
    by (elim conjE)
  from t have "server_requests (handleMoveToCart demo_props WISHLIST (Inr ()))
       = [fetch_call PUT ''/api/cart/wishlist''
            [(''itemId'', itemId demo_props), (''from'', ''wishlist''), (''to'', ''cart'')]]"
    by (elim conjE)
  then have r: "server_requests (handleMoveToCart demo_props WISHLIST (Inr ()))
       = [fetch_call PUT ''/api/cart/wishlist''
            [(''itemId'', ''p1''), (''from'', ''wishlist''), (''to'', ''cart'')]]"
    by (simp add: demo_props_def)
  from t h have g: "server_history (server_requests (handleMoveToCart demo_props WISHLIST (Inr ()))) demo_server
          = [demo_server, \<lparr>srv_cart = itemId demo_props # srv_cart demo_server,
                 srv_wishlist = removeAll (itemId demo_props) (srv_wishlist demo_server)\<rparr>]"
    "list_all (in_some_collection (itemId demo_props))
        (server_history (server_requests (handleMoveToCart demo_props WISHLIST (Inr ()))) demo_server)"
    by blast+
  have e: "[demo_server, \<lparr>srv_cart = itemId demo_props # srv_cart demo_server,
                 srv_wishlist = removeAll (itemId demo_props) (srv_wishlist demo_server)\<rparr>]
      = [\<lparr>srv_cart = [''p7''], srv_wishlist = [''p1'', ''p2'']\<rparr>,
          \<lparr>srv_cart = [''p1'', ''p7''], srv_wishlist = [''p2'']\<rparr>]"
    by (simp add: demo_props_def demo_server_def)
  show ?thesis
    by (intro conjI h r g(1)[unfolded e] g(2) a b)
qed




end
